theory Spec2Isabelle
  imports Main
begin

section \<open>Python string primitives used by the test driver\<close>

text \<open>
  The driver (\<^verbatim>\<open>_lldbtest/main.py\<close>) works on Python \<^verbatim>\<open>str\<close> values. A string is
  modelled as a \<open>char list\<close>, one \<open>char\<close> per code point below 256. \<open>is_space\<close> is
  Python's \<^verbatim>\<open>str.isspace\<close> on that range: U+0009..U+000D, U+001C..U+0020, U+0085
  and U+00A0.
\<close>

definition is_space :: "char \<Rightarrow> bool" where
  "is_space c =
     (let n = (of_char c :: nat)
      in (9 \<le> n \<and> n \<le> 13) \<or> (28 \<le> n \<and> n \<le> 32) \<or> n = 133 \<or> n = 160)"

text \<open>\<^verbatim>\<open>s.lstrip(chars)\<close>, \<^verbatim>\<open>s.strip(chars)\<close> and \<^verbatim>\<open>s.strip()\<close>.\<close>

definition lstrip_chars :: "string \<Rightarrow> string \<Rightarrow> string" where
  "lstrip_chars cs s = dropWhile (\<lambda>c. c \<in> set cs) s"

definition strip_chars :: "string \<Rightarrow> string \<Rightarrow> string" where
  "strip_chars cs s = rev (lstrip_chars cs (rev (lstrip_chars cs s)))"

definition strip :: "string \<Rightarrow> string" where
  "strip s = rev (dropWhile is_space (rev (dropWhile is_space s)))"

text \<open>\<^verbatim>\<open>s.startswith(p)\<close>.\<close>

definition startswith :: "string \<Rightarrow> string \<Rightarrow> bool" where
  "startswith s p = (take (length p) s = p)"

text \<open>
  \<^verbatim>\<open>s.split(c, 1)\<close> for a one-character separator: one part when \<open>c\<close> does not
  occur, otherwise the text before the first \<open>c\<close> and the text after it.
\<close>

definition split1 :: "char \<Rightarrow> string \<Rightarrow> string list" where
  "split1 c s =
     (if c \<in> set s then [takeWhile (\<lambda>x. x \<noteq> c) s, tl (dropWhile (\<lambda>x. x \<noteq> c) s)]
      else [s])"

text \<open>\<^verbatim>\<open>s.split(c)[0]\<close> and \<^verbatim>\<open>s.split(c)[-1]\<close> for a one-character separator.\<close>

definition split_first :: "char \<Rightarrow> string \<Rightarrow> string" where
  "split_first c s = takeWhile (\<lambda>x. x \<noteq> c) s"

definition split_last :: "char \<Rightarrow> string \<Rightarrow> string" where
  "split_last c s = rev (takeWhile (\<lambda>x. x \<noteq> c) (rev s))"

text \<open>
  \<^verbatim>\<open>s.split(sep)\<close> for a non-empty separator string: a left-to-right scan that cuts
  at every occurrence of \<open>sep\<close> and resumes after it. \<open>acc\<close> holds the current piece,
  reversed.
\<close>

fun split_on :: "string \<Rightarrow> string \<Rightarrow> string \<Rightarrow> string list" where
  "split_on sep acc [] = [rev acc]"
| "split_on sep acc (c # cs) =
     (if sep \<noteq> [] \<and> take (length sep) (c # cs) = sep
      then rev acc # split_on sep [] (drop (length sep - 1) cs)
      else split_on sep (c # acc) cs)"

definition split_str :: "string \<Rightarrow> string \<Rightarrow> string list" where
  "split_str sep s = split_on sep [] s"

text \<open>
  \<^verbatim>\<open>s.split()\<close>: the maximal runs of non-whitespace characters, in order. \<open>acc\<close> is
  the current run, reversed.
\<close>

fun split_ws :: "string \<Rightarrow> string \<Rightarrow> string list" where
  "split_ws acc [] = (if acc = [] then [] else [rev acc])"
| "split_ws acc (c # cs) =
     (if is_space c then (if acc = [] then split_ws [] cs else rev acc # split_ws [] cs)
      else split_ws (c # acc) cs)"

definition split_whitespace :: "string \<Rightarrow> string list" where
  "split_whitespace s = split_ws [] s"

text \<open>\<^verbatim>\<open>sep.join(xs)\<close>.\<close>

fun join :: "string \<Rightarrow> string list \<Rightarrow> string" where
  "join sep [] = []"
| "join sep [x] = x"
| "join sep (x # y # ys) = x @ sep @ join sep (y # ys)"

text \<open>
  An optional string inside an f-string: \<^verbatim>\<open>None\<close> is rendered as the four letters
  \<^verbatim>\<open>None\<close>.
\<close>

definition fmt :: "string option \<Rightarrow> string" where
  "fmt v = (case v of None \<Rightarrow> ''None'' | Some s \<Rightarrow> s)"

section \<open>The data model\<close>

text \<open>
  The dataclasses \<^verbatim>\<open>Test\<close>, \<^verbatim>\<open>TestResult\<close>, \<^verbatim>\<open>TestCase\<close>, \<^verbatim>\<open>CaseResult\<close> and
  \<^verbatim>\<open>TestResults\<close>. Line numbers and counters are natural numbers: the code only ever
  produces them from list indices and lengths. \<^verbatim>\<open>TestResult.actual\<close> holds a string
  for a single-variable check and a set of names for an all-variables check.
\<close>

record Test =
  source_file :: string
  line_number :: nat
  variable :: string
  expected_value :: string

datatype actual_value = NoActual | ActualStr string | ActualNames "string set"

record TestResult =
  test :: Test
  status :: string
  actual :: actual_value
  message :: "string option"
  missing :: "string set option"
  extra :: "string set option"

record TestCase =
  case_source_file :: string
  start_line :: nat
  end_line :: nat
  tests :: "Test list"

record CaseResult =
  test_case :: TestCase
  function_name :: "string option"
  results :: "TestResult list"

record TestResults =
  total :: nat
  passed :: nat
  failed :: nat
  case_results :: "CaseResult list"

text \<open>
  The exceptions the modelled code can raise: \<^verbatim>\<open>OSError\<close> from \<^verbatim>\<open>open\<close>, the two
  \<^verbatim>\<open>Exception\<close>s of \<^verbatim>\<open>setup\<close> and \<^verbatim>\<open>set_breakpoint\<close> with what their messages name,
  the \<^verbatim>\<open>Exception\<close> of \<^verbatim>\<open>run_to_breakpoint\<close>, and the built-in exceptions of
  \<^verbatim>\<open>int\<close>, of attribute access on \<^verbatim>\<open>None\<close>, of \<^verbatim>\<open>join\<close> and of the recursion limit.
  All are subclasses of \<^verbatim>\<open>Exception\<close>.
\<close>

datatype exn =
    OSError string
  | TargetError string
  | BreakpointError string nat
  | NotStoppedError
  | TypeError
  | AttributeError
  | ValueError
  | RecursionError

section \<open>The annotation parser\<close>

text \<open>
  \<^verbatim>\<open>parse_expected_values\<close>, lines 287-313. \<open>content\<close> is \<^verbatim>\<open>f.readlines()\<close> and \<open>i\<close>
  the loop index. \<open>parse_block\<close> is the inner \<^verbatim>\<open>while\<close> loop: it consumes comment
  lines from index \<open>i\<close>, appends a \<open>Test\<close> for each line of the form
  \<^verbatim>\<open>// name: value\<close>, and returns the index of the first line that is not a comment
  (or the length of the file) with the tests collected.
\<close>

function parse_block :: "string \<Rightarrow> string list \<Rightarrow> nat \<Rightarrow> Test list \<Rightarrow> nat \<times> Test list" where
  "parse_block fname content i ts =
     (if i < length content then
        (let line = strip (content ! i) in
         if \<not> startswith line ''//'' then (i, ts)
         else
           (let parts = split1 CHR '':'' (strip (lstrip_chars ''//'' line)) in
            if length parts = 2
            then parse_block fname content (i + 1)
                   (ts @ [\<lparr>source_file = fname, line_number = i + 1,
                           variable = strip (parts ! 0), expected_value = strip (parts ! 1)\<rparr>])
            else parse_block fname content (i + 1) ts))
      else (i, ts))"
  by pat_completeness auto
termination
  by (relation "measure (\<lambda>(fname, content, i, ts). length content - i)") auto

declare parse_block.simps [simp del]

lemma parse_block_index: "i \<le> fst (parse_block fname content i ts)"
proof (induction fname content i ts rule: parse_block.induct)
  case (1 fname content i ts)
  show ?case
  proof (cases "i < length content \<and> startswith (strip (content ! i)) ''//''")
    case False
    then show ?thesis
      by (subst parse_block.simps) (auto simp: Let_def)
  next
    case True
    let ?parts = "split1 CHR '':'' (strip (lstrip_chars ''//'' (strip (content ! i))))"
    show ?thesis
    proof (cases "length ?parts = 2")
      case two: True
      from "1.IH"(1)[OF _ refl _ refl two] True
      have "i + 1 \<le> fst (parse_block fname content (i + 1)
               (ts @ [\<lparr>source_file = fname, line_number = i + 1,
                       variable = strip (?parts ! 0), expected_value = strip (?parts ! 1)\<rparr>]))"
        by simp
      with True two show ?thesis
        by (subst parse_block.simps) (simp add: Let_def)
    next
      case other: False
      from "1.IH"(2)[OF _ refl _ refl other] True
      have "i + 1 \<le> fst (parse_block fname content (i + 1) ts)"
        by simp
      with True other show ?thesis
        by (subst parse_block.simps) (simp add: Let_def)
    qed
  qed
qed

text \<open>
  The outer \<^verbatim>\<open>while\<close> loop over one file: a line that starts with
  \<^verbatim>\<open>// Expected:\<close> opens a block, every other line is skipped.
\<close>

function parse_lines :: "string \<Rightarrow> string list \<Rightarrow> nat \<Rightarrow> TestCase list \<Rightarrow> TestCase list" where
  "parse_lines fname content i test_cases =
     (if i < length content then
        (if startswith (strip (content ! i)) ''// Expected:''
         then
           (let start = i + 1;
                blk = parse_block fname content (i + 1) []
            in parse_lines fname content (fst blk)
                 (test_cases @ [\<lparr>case_source_file = fname, start_line = start,
                                  end_line = fst blk, tests = snd blk\<rparr>]))
         else parse_lines fname content (i + 1) test_cases)
      else test_cases)"
  by pat_completeness auto
termination
proof (relation "measure (\<lambda>(fname, content, i, test_cases). length content - i)")
  fix fname :: string and content :: "string list" and i :: nat
    and test_cases :: "TestCase list" and start :: nat and blk :: "nat \<times> Test list"
  assume lt: "i < length content" and blk: "blk = parse_block fname content (i + 1) []"
  have "i + 1 \<le> fst blk"
    unfolding blk by (rule parse_block_index)
  with lt show "((fname, content, fst blk,
        test_cases @ [\<lparr>case_source_file = fname, start_line = start,
                         end_line = fst blk, tests = snd blk\<rparr>]),
       (fname, content, i, test_cases))
      \<in> measure (\<lambda>(fname, content, i, test_cases). length content - i)"
    by simp
qed auto

declare parse_lines.simps [simp del]

text \<open>
  The loop over the source files. \<open>fs\<close> is the file system: the lines of each file
  that can be opened. A file that cannot be opened makes \<^verbatim>\<open>open\<close> raise
  \<^verbatim>\<open>OSError\<close>.
\<close>

fun parse_files :: "(string \<Rightarrow> string list option) \<Rightarrow> string list \<Rightarrow> TestCase list
    \<Rightarrow> exn + TestCase list" where
  "parse_files fs [] test_cases = Inr test_cases"
| "parse_files fs (fname # rest) test_cases =
     (case fs fname of
        None \<Rightarrow> Inl (OSError fname)
      | Some content \<Rightarrow> parse_files fs rest (parse_lines fname content 0 test_cases))"

definition parse_expected_values :: "(string \<Rightarrow> string list option) \<Rightarrow> string list
    \<Rightarrow> exn + TestCase list" where
  "parse_expected_values fs source_files = parse_files fs source_files []"



section \<open>Python integers from text\<close>

text \<open>
  \<^verbatim>\<open>int(s)\<close> and \<^verbatim>\<open>int(s, 16)\<close> on an optional string: \<^verbatim>\<open>None\<close> raises
  \<^verbatim>\<open>TypeError\<close>; a string is stripped of whitespace, may carry a sign, in base 16
  a \<^verbatim>\<open>0x\<close> prefix, and single underscores between digits; anything else raises
  \<^verbatim>\<open>ValueError\<close>. \<open>str_nat\<close> is the decimal rendering of a number in an f-string.
\<close>

definition digit_value :: "char \<Rightarrow> nat option" where
  "digit_value c =
     (let n = (of_char c :: nat) in
      if 48 \<le> n \<and> n \<le> 57 then Some (n - 48)
      else if 97 \<le> n \<and> n \<le> 102 then Some (n - 87)
      else if 65 \<le> n \<and> n \<le> 70 then Some (n - 55)
      else None)"

fun digits_value :: "nat \<Rightarrow> nat \<Rightarrow> string \<Rightarrow> nat option" where
  "digits_value base acc [] = Some acc"
| "digits_value base acc (c # cs) =
     (case digit_value c of
        None \<Rightarrow> None
      | Some v \<Rightarrow> if v < base then digits_value base (acc * base + v) cs else None)"

fun drop_underscores :: "bool \<Rightarrow> string \<Rightarrow> string option" where
  "drop_underscores prev [] = Some []"
| "drop_underscores prev (c # cs) =
     (if c = CHR ''_''
      then (if prev \<and> cs \<noteq> [] then drop_underscores False cs else None)
      else map_option ((#) c) (drop_underscores True cs))"

definition int_literal :: "nat \<Rightarrow> string \<Rightarrow> exn + int" where
  "int_literal base s =
     (let t = strip s;
          neg = startswith t ''-'';
          u = (if startswith t ''-'' \<or> startswith t ''+'' then tl t else t);
          pre = (base = 16 \<and> (startswith u ''0x'' \<or> startswith u ''0X''));
          body = (if pre then drop 2 u else u)
      in case drop_underscores pre body of
           None \<Rightarrow> Inl ValueError
         | Some ds \<Rightarrow>
             if ds = [] then Inl ValueError
             else (case digits_value base 0 ds of
                     None \<Rightarrow> Inl ValueError
                   | Some n \<Rightarrow> Inr (if neg then - int n else int n)))"

definition py_int :: "string option \<Rightarrow> exn + int" where
  "py_int v = (case v of None \<Rightarrow> Inl TypeError | Some s \<Rightarrow> int_literal 10 s)"

definition py_int16 :: "string option \<Rightarrow> exn + int" where
  "py_int16 v = (case v of None \<Rightarrow> Inl TypeError | Some s \<Rightarrow> int_literal 16 s)"

function str_nat :: "nat \<Rightarrow> string" where
  "str_nat n =
     (if n < 10 then [char_of (48 + n)] else str_nat (n div 10) @ [char_of (48 + n mod 10)])"
  by pat_completeness auto
termination
  by (relation "measure id") auto

declare str_nat.simps [simp del]

section \<open>The debugger backend's values\<close>

text \<open>
  The LLDB objects the formatter reads, as far as it reads them. An \<open>sbtype\<close> is an
  \<^verbatim>\<open>SBType\<close>: its name, type class, whether it is an array type, its byte size, its
  pointee type and its array element type. An \<open>sbvalue\<close> is an \<^verbatim>\<open>SBValue\<close>: its
  name, type name, type, raw value string, summary string and children; a getter
  that returns a \<^verbatim>\<open>str\<close> or \<^verbatim>\<open>None\<close> is an \<open>option\<close>. Both have an invalid
  object, on which every getter returns its empty answer. \<open>inferior\<close> is
  what the stopped process shows: the function name and variables of frame 0, the
  typed values at addresses (\<^verbatim>\<open>target.CreateValueFromAddress\<close>; the name given to
  the created value is never read by the formatter) and the C strings in memory
  (\<^verbatim>\<open>process.ReadCStringFromMemory\<close>, which the Python binding returns as a
  \<^verbatim>\<open>str\<close>, empty when nothing could be read).
\<close>

datatype lldb_type_class =
    eTypeClassInvalid | eTypeClassArray | eTypeClassBuiltin | eTypeClassClass
  | eTypeClassPointer | eTypeClassStruct | eTypeClassTypedef | eTypeClassOther

datatype sbtype = InvalidType | SBType string lldb_type_class bool nat sbtype sbtype

fun Type_GetName :: "sbtype \<Rightarrow> string" where
  "Type_GetName InvalidType = []"
| "Type_GetName (SBType name cls arr sz pointee elem) = name"

fun GetTypeClass :: "sbtype \<Rightarrow> lldb_type_class" where
  "GetTypeClass InvalidType = eTypeClassInvalid"
| "GetTypeClass (SBType name cls arr sz pointee elem) = cls"

fun IsArrayType :: "sbtype \<Rightarrow> bool" where
  "IsArrayType InvalidType = False"
| "IsArrayType (SBType name cls arr sz pointee elem) = arr"

fun GetByteSize :: "sbtype \<Rightarrow> nat" where
  "GetByteSize InvalidType = 0"
| "GetByteSize (SBType name cls arr sz pointee elem) = sz"

fun GetPointeeType :: "sbtype \<Rightarrow> sbtype" where
  "GetPointeeType InvalidType = InvalidType"
| "GetPointeeType (SBType name cls arr sz pointee elem) = pointee"

fun GetArrayElementType :: "sbtype \<Rightarrow> sbtype" where
  "GetArrayElementType InvalidType = InvalidType"
| "GetArrayElementType (SBType name cls arr sz pointee elem) = elem"

datatype sbvalue =
    InvalidValue
  | SBValue "string option" string sbtype "string option" "string option" "sbvalue list"

fun IsValid :: "sbvalue \<Rightarrow> bool" where
  "IsValid InvalidValue = False"
| "IsValid (SBValue name tname ty val summ kids) = True"

fun GetName :: "sbvalue \<Rightarrow> string option" where
  "GetName InvalidValue = None"
| "GetName (SBValue name tname ty val summ kids) = name"

fun GetTypeName :: "sbvalue \<Rightarrow> string option" where
  "GetTypeName InvalidValue = None"
| "GetTypeName (SBValue name tname ty val summ kids) = Some tname"

fun GetType :: "sbvalue \<Rightarrow> sbtype" where
  "GetType InvalidValue = InvalidType"
| "GetType (SBValue name tname ty val summ kids) = ty"

fun GetValue :: "sbvalue \<Rightarrow> string option" where
  "GetValue InvalidValue = None"
| "GetValue (SBValue name tname ty val summ kids) = val"

fun GetSummary :: "sbvalue \<Rightarrow> string option" where
  "GetSummary InvalidValue = None"
| "GetSummary (SBValue name tname ty val summ kids) = summ"

fun children :: "sbvalue \<Rightarrow> sbvalue list" where
  "children InvalidValue = []"
| "children (SBValue name tname ty val summ kids) = kids"

definition GetNumChildren :: "sbvalue \<Rightarrow> nat" where
  "GetNumChildren var = length (children var)"

definition GetChildAtIndex :: "sbvalue \<Rightarrow> nat \<Rightarrow> sbvalue" where
  "GetChildAtIndex var i = (if i < length (children var) then children var ! i else InvalidValue)"

definition GetChildMemberWithName :: "sbvalue \<Rightarrow> string \<Rightarrow> sbvalue" where
  "GetChildMemberWithName var name =
     (case find (\<lambda>child. GetName child = Some name) (children var) of
        None \<Rightarrow> InvalidValue
      | Some child \<Rightarrow> child)"

record inferior =
  GetFunctionName :: "string option"
  GetVariables :: "(string \<times> sbvalue) list"
  CreateValueFromAddress :: "int \<Rightarrow> sbtype \<Rightarrow> sbvalue"
  ReadCStringFromMemory :: "int \<Rightarrow> int \<Rightarrow> string"

definition FindVariable :: "inferior \<Rightarrow> string \<Rightarrow> sbvalue" where
  "FindVariable m name =
     (case map_of (GetVariables m) name of None \<Rightarrow> InvalidValue | Some var \<Rightarrow> var)"

section \<open>The value formatter\<close>

text \<open>
  \<^verbatim>\<open>LLDBDebugger.format_value\<close> and the formatters it dispatches to, lines 108-218.
  A formatter returns a Python value that is a \<^verbatim>\<open>str\<close> or \<^verbatim>\<open>None\<close>, modelled as a
  \<open>string option\<close>, or raises. The formatters call each other recursively on values
  read from the process, so the nesting is not bounded by the data; the argument
  \<open>d\<close> is the number of nested calls the interpreter still allows, and a call made
  with none left raises \<^verbatim>\<open>RecursionError\<close>. \<open>collect f xs\<close> is a \<^verbatim>\<open>for\<close> loop that
  appends \<open>f x\<close> for each \<open>x\<close> and stops at the first exception. \<open>join_values\<close> is
  \<^verbatim>\<open>', '.join(elements)\<close> on a list that may hold \<^verbatim>\<open>None\<close>, on which it raises
  \<^verbatim>\<open>TypeError\<close>. \<^verbatim>\<open>format_pointer\<close> is never called and is left out.
\<close>

definition type_mapping :: "string \<rightharpoonup> string" where
  "type_mapping = [''long'' \<mapsto> ''int'', ''unsigned long'' \<mapsto> ''uint'']"

definition type_mapping_get :: "string \<Rightarrow> string" where
  "type_mapping_get type_name =
     (case type_mapping type_name of None \<Rightarrow> type_name | Some alias \<Rightarrow> alias)"

fun collect :: "('a \<Rightarrow> exn + 'b) \<Rightarrow> 'a list \<Rightarrow> exn + 'b list" where
  "collect f [] = Inr []"
| "collect f (x # xs) =
     (case f x of
        Inl e \<Rightarrow> Inl e
      | Inr y \<Rightarrow> (case collect f xs of Inl e \<Rightarrow> Inl e | Inr ys \<Rightarrow> Inr (y # ys)))"

definition truthy :: "string option \<Rightarrow> bool" where
  "truthy v = (case v of None \<Rightarrow> False | Some s \<Rightarrow> s \<noteq> [])"

definition join_values :: "string \<Rightarrow> string option list \<Rightarrow> exn + string" where
  "join_values sep elements =
     (case those elements of None \<Rightarrow> Inl TypeError | Some strs \<Rightarrow> Inr (join sep strs))"

fun format_string :: "inferior \<Rightarrow> nat \<Rightarrow> sbvalue \<Rightarrow> exn + string option" where
  "format_string m 0 var = Inl RecursionError"
| "format_string m (Suc d) var =
     (case GetSummary var of
        Some summary \<Rightarrow> Inr (Some (strip_chars [CHR 0x22] summary))
      | None \<Rightarrow>
          (let data = GetValue (GetChildMemberWithName var ''data'') in
           case py_int (GetValue (GetChildMemberWithName var ''len'')) of
             Inl e \<Rightarrow> Inl e
           | Inr len \<Rightarrow>
               if truthy data \<and> len \<noteq> 0
               then (case py_int16 data of
                       Inl e \<Rightarrow> Inl e
                     | Inr addr \<Rightarrow> Inr (Some (ReadCStringFromMemory m addr (len + 1))))
               else Inr (Some ''None'')))"

fun format_complex :: "nat \<Rightarrow> sbvalue \<Rightarrow> exn + string option" where
  "format_complex 0 var = Inl RecursionError"
| "format_complex (Suc d) var =
     (let real = GetValue (GetChildMemberWithName var ''real'');
          imag = GetValue (GetChildMemberWithName var ''imag'')
      in Inr (Some (fmt (GetTypeName var) @ ''(real = '' @ fmt real @ '', imag = '' @
                    fmt imag @ '')'')))"

fun format_value :: "inferior \<Rightarrow> nat \<Rightarrow> sbvalue \<Rightarrow> exn + string option"
  and format_slice :: "inferior \<Rightarrow> nat \<Rightarrow> sbvalue \<Rightarrow> exn + string option"
  and format_array :: "inferior \<Rightarrow> nat \<Rightarrow> sbvalue \<Rightarrow> exn + string option"
  and format_custom_array :: "inferior \<Rightarrow> nat \<Rightarrow> sbvalue \<Rightarrow> exn + string option"
  and format_struct :: "inferior \<Rightarrow> nat \<Rightarrow> sbvalue \<Rightarrow> bool \<Rightarrow> exn + string option"
where
  "format_value m 0 var = Inl RecursionError"
| "format_value m (Suc d) var =
     (if IsValid var then
        (case GetTypeName var of
           None \<Rightarrow> Inl AttributeError
         | Some type_name \<Rightarrow>
            (let var_type = GetType var;
                 tclass = GetTypeClass var_type
             in if startswith type_name ''[]'' then format_slice m d var
                else if IsArrayType var_type then
                  (if tclass \<in> {eTypeClassStruct, eTypeClassClass}
                   then format_custom_array m d var
                   else format_array m d var)
                else if type_name = ''string'' then format_string m d var
                else if type_name \<in> {''complex64'', ''complex128''} then format_complex d var
                else if tclass \<in> {eTypeClassStruct, eTypeClassClass}
                then format_struct m d var True
                else (case GetValue var of
                        Some v \<Rightarrow> Inr (Some v)
                      | None \<Rightarrow>
                          (case GetSummary var of
                             Some summary \<Rightarrow> Inr (Some summary)
                           | None \<Rightarrow> Inr (Some ''None'')))))
      else Inr (Some ''None''))"
| "format_slice m 0 var = Inl RecursionError"
| "format_slice m (Suc d) var =
     (case py_int (GetValue (GetChildMemberWithName var ''len'')) of
        Inl e \<Rightarrow> Inl e
      | Inr len \<Rightarrow>
          (let data_ptr = GetChildMemberWithName var ''data'' in
           case py_int16 (GetValue data_ptr) of
             Inl e \<Rightarrow> Inl e
           | Inr ptr_value \<Rightarrow>
               (let element_type = GetPointeeType (GetType data_ptr);
                    element_size = GetByteSize element_type
                in case collect
                          (\<lambda>i. format_value m d
                                 (CreateValueFromAddress m
                                    (ptr_value + int i * int element_size) element_type))
                          [0..<nat len] of
                     Inl e \<Rightarrow> Inl e
                   | Inr elements \<Rightarrow>
                       (let type_name = last (split_str ''[]'' (Type_GetName (GetType var)));
                            type_name = type_mapping_get type_name
                        in case join_values '', '' elements of
                             Inl e \<Rightarrow> Inl e
                           | Inr joined \<Rightarrow>
                               Inr (Some (''[]'' @ type_name @ ''['' @ joined @ '']''))))))"
| "format_array m 0 var = Inl RecursionError"
| "format_array m (Suc d) var =
     (case collect (\<lambda>i. format_value m d (GetChildAtIndex var i)) [0..<GetNumChildren var] of
        Inl e \<Rightarrow> Inl e
      | Inr elements \<Rightarrow>
          (let array_size = GetNumChildren var;
               type_name = Type_GetName (GetArrayElementType (GetType var));
               type_name = type_mapping_get type_name
           in case join_values '', '' elements of
                Inl e \<Rightarrow> Inl e
              | Inr joined \<Rightarrow>
                  Inr (Some (''['' @ str_nat array_size @ '']'' @ type_name @ ''['' @
                             joined @ '']''))))"
| "format_custom_array m 0 var = Inl RecursionError"
| "format_custom_array m (Suc d) var =
     (case collect (\<lambda>i. format_struct m d (GetChildAtIndex var i) False)
             [0..<GetNumChildren var] of
        Inl e \<Rightarrow> Inl e
      | Inr elements \<Rightarrow>
          (let array_size = GetNumChildren var;
               type_name = Type_GetName (GetArrayElementType (GetType var))
           in case join_values '', '' elements of
                Inl e \<Rightarrow> Inl e
              | Inr joined \<Rightarrow>
                  Inr (Some (''['' @ str_nat array_size @ '']'' @ type_name @ ''['' @
                             joined @ '']''))))"
| "format_struct m 0 var include_type = Inl RecursionError"
| "format_struct m (Suc d) var include_type =
     (case collect
             (\<lambda>i. let child = GetChildAtIndex var i;
                      child_name = GetName child
                  in case format_value m d child of
                       Inl e \<Rightarrow> Inl e
                     | Inr child_value \<Rightarrow> Inr (fmt child_name @ '' = '' @ fmt child_value))
             [0..<GetNumChildren var] of
        Inl e \<Rightarrow> Inl e
      | Inr kids \<Rightarrow>
          (let struct_content = ''('' @ join '', '' kids @ '')'' in
           if include_type then Inr (Some (fmt (GetTypeName var) @ struct_content))
           else Inr (Some struct_content)))"

text \<open>
  \<^verbatim>\<open>get_variable_value\<close>, lines 95-106, for a name given as a string: the text
  before the first \<^verbatim>\<open>=\<close>, stripped, then the text after its last \<^verbatim>\<open>(\<close> when it has
  one, looked up in frame 0 and formatted.
\<close>

definition actual_var_name :: "string \<Rightarrow> string" where
  "actual_var_name var_name =
     (let name = strip (split_first CHR ''='' var_name)
      in if CHR ''('' \<in> set name then strip (split_last CHR ''('' name) else name)"

definition get_variable_value :: "inferior \<Rightarrow> nat \<Rightarrow> string \<Rightarrow> exn + string option" where
  "get_variable_value m d var_name =
     (let var = FindVariable m (actual_var_name var_name) in format_value m d var)"

definition get_all_variable_names :: "inferior \<Rightarrow> string set" where
  "get_all_variable_names m = set (map fst (GetVariables m))"

definition get_current_function_name :: "inferior \<Rightarrow> string option" where
  "get_current_function_name m = GetFunctionName m"

section \<open>Executing the checks\<close>

text \<open>
  \<^verbatim>\<open>execute_all_variables_test\<close>, \<^verbatim>\<open>execute_single_variable_test\<close> and
  \<^verbatim>\<open>execute_test_case\<close>, lines 384-441. The checks of a case are evaluated in order
  against the stopped process \<open>m\<close>; an exception raised while formatting a value
  leaves the loop.
\<close>

definition execute_all_variables_test :: "Test \<Rightarrow> string set \<Rightarrow> TestResult" where
  "execute_all_variables_test t all_variable_names =
     (let expected_vars = set (split_whitespace (expected_value t)) in
      if expected_vars = all_variable_names
      then \<lparr>test = t, status = ''pass'', actual = ActualNames all_variable_names,
            message = None, missing = None, extra = None\<rparr>
      else \<lparr>test = t, status = ''fail'', actual = ActualNames all_variable_names,
            message = None, missing = Some (expected_vars - all_variable_names),
            extra = Some (all_variable_names - expected_vars)\<rparr>)"

definition execute_single_variable_test :: "inferior \<Rightarrow> nat \<Rightarrow> Test \<Rightarrow> exn + TestResult" where
  "execute_single_variable_test m d t =
     (case get_variable_value m d (variable t) of
        Inl e \<Rightarrow> Inl e
      | Inr None \<Rightarrow>
          Inr \<lparr>test = t, status = ''error'', actual = NoActual,
                message = Some ''Unable to fetch value'', missing = None, extra = None\<rparr>
      | Inr (Some fetched) \<Rightarrow>
          (let actual_value = strip fetched;
               expected = strip (expected_value t)
           in if actual_value = expected
              then Inr \<lparr>test = t, status = ''pass'', actual = ActualStr actual_value,
                        message = None, missing = None, extra = None\<rparr>
              else Inr \<lparr>test = t, status = ''fail'', actual = ActualStr actual_value,
                        message = None, missing = None, extra = None\<rparr>))"

definition execute_test_case :: "inferior \<Rightarrow> nat \<Rightarrow> TestCase \<Rightarrow> string set \<Rightarrow> exn + CaseResult" where
  "execute_test_case m d tc all_variable_names =
     (case collect
             (\<lambda>t. if variable t = ''all variables''
                  then Inr (execute_all_variables_test t all_variable_names)
                  else execute_single_variable_test m d t)
             (tests tc) of
        Inl e \<Rightarrow> Inl e
      | Inr rs \<Rightarrow>
          Inr \<lparr>test_case = tc, function_name = get_current_function_name m, results = rs\<rparr>)"

section \<open>The debug session\<close>

text \<open>
  The state of an \<^verbatim>\<open>LLDBDebugger\<close> object and of the LLDB objects it owns: whether
  the target exists, the process (absent before the first launch), the identifiers
  of the breakpoints that are set, the identifier the next breakpoint gets, whether
  the process was killed and whether the debugger was destroyed. \<open>clock\<close> counts the
  times control was handed to the process or to the user; the backend's answers are
  functions of it. \<open>backend\<close> is what LLDB, the debugged program and the user at the
  console do: whether the executable loads, whether a location yields a valid
  breakpoint, the process a launch gives, the state a continue ends in, what the
  process shows when stopped, and for a console session whether the user let the
  run continue and the state the process was left in. \<open>recursion_depth\<close> is the
  number of nested calls left when the formatter is entered.
\<close>

datatype state_type =
    eStateInvalid | eStateStopped | eStateRunning | eStateExited | eStateCrashed

record sbprocess =
  process_valid :: bool
  GetState :: state_type

record backend =
  CreateTarget :: "string \<Rightarrow> bool"
  BreakpointCreateByLocation :: "string \<Rightarrow> nat \<Rightarrow> bool"
  LaunchSimple :: "nat \<Rightarrow> sbprocess"
  Continue :: "nat \<Rightarrow> state_type"
  stopped_at :: "nat \<Rightarrow> inferior"
  console :: "nat \<Rightarrow> bool \<times> state_type"
  recursion_depth :: nat

record debugger =
  target :: bool
  process :: "sbprocess option"
  breakpoints :: "nat list"
  next_breakpoint :: nat
  clock :: nat
  killed :: bool
  destroyed :: bool

definition LLDBDebugger :: debugger where
  "LLDBDebugger =
     \<lparr>target = False, process = None, breakpoints = [], next_breakpoint = 1, clock = 0,
      killed = False, destroyed = False\<rparr>"

definition LLDBDebugger_setup :: "backend \<Rightarrow> string \<Rightarrow> debugger \<Rightarrow> (exn \<times> debugger) + debugger" where
  "LLDBDebugger_setup w executable_path dbg =
     (if CreateTarget w executable_path then Inr (dbg\<lparr>target := True\<rparr>)
      else Inl (TargetError executable_path, dbg))"

definition set_breakpoint :: "backend \<Rightarrow> debugger \<Rightarrow> string \<Rightarrow> nat
    \<Rightarrow> (exn \<times> debugger) + (nat \<times> debugger)" where
  "set_breakpoint w dbg file_spec line =
     (if BreakpointCreateByLocation w file_spec line
      then Inr (next_breakpoint dbg,
                dbg\<lparr>breakpoints := breakpoints dbg @ [next_breakpoint dbg],
                    next_breakpoint := next_breakpoint dbg + 1\<rparr>)
      else Inl (BreakpointError file_spec line, dbg))"

definition BreakpointDelete :: "debugger \<Rightarrow> nat \<Rightarrow> debugger" where
  "BreakpointDelete dbg bp = dbg\<lparr>breakpoints := removeAll bp (breakpoints dbg)\<rparr>"

text \<open>The truth value of \<^verbatim>\<open>self.process\<close>: a process object that is valid.\<close>

definition process_alive :: "sbprocess option \<Rightarrow> bool" where
  "process_alive p = (case p of None \<Rightarrow> False | Some q \<Rightarrow> process_valid q)"

definition run_to_breakpoint :: "backend \<Rightarrow> debugger \<Rightarrow> (exn \<times> debugger) + debugger" where
  "run_to_breakpoint w dbg =
     (let p = (case process dbg of
                 None \<Rightarrow> LaunchSimple w (clock dbg)
               | Some q \<Rightarrow>
                   if process_valid q then q\<lparr>GetState := Continue w (clock dbg)\<rparr>
                   else LaunchSimple w (clock dbg));
          dbg' = dbg\<lparr>process := Some p, clock := clock dbg + 1\<rparr>
      in if GetState p \<noteq> eStateStopped then Inl (NotStoppedError, dbg') else Inr dbg')"

definition run_console :: "backend \<Rightarrow> debugger \<Rightarrow> bool \<times> debugger" where
  "run_console w dbg =
     (let answer = console w (clock dbg)
      in (fst answer,
          dbg\<lparr>process := map_option (\<lambda>p. p\<lparr>GetState := snd answer\<rparr>) (process dbg),
              clock := clock dbg + 1\<rparr>))"

text \<open>
  Lines 371-377: after the console returns, a running process is stopped and an
  exited one is launched again.
\<close>

definition restore_process :: "backend \<Rightarrow> debugger \<Rightarrow> debugger" where
  "restore_process w dbg =
     (case process dbg of
        None \<Rightarrow> dbg
      | Some p \<Rightarrow>
          if GetState p = eStateRunning
          then dbg\<lparr>process := Some (p\<lparr>GetState := eStateStopped\<rparr>)\<rparr>
          else if GetState p = eStateExited
          then dbg\<lparr>process := Some (LaunchSimple w (clock dbg)), clock := clock dbg + 1\<rparr>
          else dbg)"

definition cleanup :: "debugger \<Rightarrow> debugger" where
  "cleanup dbg =
     (let dbg' = (if process_alive (process dbg) then dbg\<lparr>killed := True\<rparr> else dbg)
      in dbg'\<lparr>destroyed := True\<rparr>)"

section \<open>The orchestrator\<close>

text \<open>
  \<^verbatim>\<open>execute_tests\<close>, lines 339-381. \<open>execute_tests_body\<close> is one pass through the
  body of the \<^verbatim>\<open>for\<close> loop; it ends by raising, by the \<^verbatim>\<open>break\<close> taken when the user
  aborts in the console, or by reaching the end of the body. Output to the log is
  not modelled.
\<close>

datatype step =
    Raised exn debugger
  | Aborted TestResults debugger
  | Continued TestResults debugger

definition add_case_result :: "TestResults \<Rightarrow> CaseResult \<Rightarrow> TestResults" where
  "add_case_result res case_result =
     res\<lparr>total := total res + length (results case_result),
         passed := passed res + length (filter (\<lambda>r. status r = ''pass'') (results case_result)),
         failed := failed res + length (filter (\<lambda>r. status r \<noteq> ''pass'') (results case_result)),
         case_results := case_results res @ [case_result]\<rparr>"

definition execute_tests_body :: "backend \<Rightarrow> bool \<Rightarrow> TestCase \<Rightarrow> TestResults \<Rightarrow> debugger \<Rightarrow> step" where
  "execute_tests_body w interactive tc res dbg =
     (case set_breakpoint w dbg (case_source_file tc) (end_line tc) of
        Inl (e, dbg1) \<Rightarrow> Raised e dbg1
      | Inr (bp, dbg1) \<Rightarrow>
          (case run_to_breakpoint w dbg1 of
             Inl (e, dbg2) \<Rightarrow> Raised e dbg2
           | Inr dbg2 \<Rightarrow>
               (let m = stopped_at w (clock dbg2);
                    all_variable_names = get_all_variable_names m
                in case execute_test_case m (recursion_depth w) tc all_variable_names of
                     Inl e \<Rightarrow> Raised e dbg2
                   | Inr case_result \<Rightarrow>
                       (let res' = add_case_result res case_result
                        in if interactive \<and>
                              (\<exists>r \<in> set (results case_result). status r \<noteq> ''pass'')
                           then
                             (let answer = run_console w dbg2 in
                              if \<not> fst answer then Aborted res' (snd answer)
                              else Continued res'
                                     (BreakpointDelete (restore_process w (snd answer)) bp))
                           else Continued res' (BreakpointDelete dbg2 bp)))))"

fun execute_tests_loop :: "backend \<Rightarrow> bool \<Rightarrow> TestCase list \<Rightarrow> TestResults \<Rightarrow> debugger
    \<Rightarrow> (exn \<times> debugger) + (TestResults \<times> debugger)" where
  "execute_tests_loop w interactive [] res dbg = Inr (res, dbg)"
| "execute_tests_loop w interactive (tc # rest) res dbg =
     (case execute_tests_body w interactive tc res dbg of
        Raised e dbg' \<Rightarrow> Inl (e, dbg')
      | Aborted res' dbg' \<Rightarrow> Inr (res', dbg')
      | Continued res' dbg' \<Rightarrow> execute_tests_loop w interactive rest res' dbg')"

definition execute_tests :: "backend \<Rightarrow> debugger \<Rightarrow> TestCase list \<Rightarrow> bool
    \<Rightarrow> (exn \<times> debugger) + (TestResults \<times> debugger)" where
  "execute_tests w dbg test_cases interactive =
     execute_tests_loop w interactive test_cases
       \<lparr>total = 0, passed = 0, failed = 0, case_results = []\<rparr> dbg"

section \<open>The top-level run\<close>

text \<open>
  \<^verbatim>\<open>run_tests\<close>, lines 316-336, with the way the process ends. The debugger object is
  created and the annotations are parsed before the \<^verbatim>\<open>try\<close>, so an exception from
  the parser is not caught. Inside the \<^verbatim>\<open>try\<close>, every exception modelled here is an
  \<^verbatim>\<open>Exception\<close>: the handler logs it and, after the \<^verbatim>\<open>finally\<close> clause, the function
  returns. \<^verbatim>\<open>os._exit(1)\<close> ends the process at once, without running the \<^verbatim>\<open>finally\<close>
  clause. The result is how the process ends and the last state of the debugger.
  \<open>exit_status\<close> is the status the operating system sees: 0 when \<^verbatim>\<open>main\<close> returns,
  the argument of \<^verbatim>\<open>os._exit\<close>, and 1 for an uncaught exception. The flags
  \<^verbatim>\<open>verbose\<close> and \<^verbatim>\<open>plugin_path\<close> only change what is logged and what LLDB imports.
\<close>

datatype exit = Returned | OsExit nat | Uncaught exn

definition run_tests :: "backend \<Rightarrow> (string \<Rightarrow> string list option) \<Rightarrow> string \<Rightarrow> string list
    \<Rightarrow> bool \<Rightarrow> exit \<times> debugger" where
  "run_tests w fs executable_path source_files interactive =
     (let dbg = LLDBDebugger in
      case parse_expected_values fs source_files of
        Inl e \<Rightarrow> (Uncaught e, dbg)
      | Inr test_cases \<Rightarrow>
          (case LLDBDebugger_setup w executable_path dbg of
             Inl (e, dbg1) \<Rightarrow> (Returned, cleanup dbg1)
           | Inr dbg1 \<Rightarrow>
               (case execute_tests w dbg1 test_cases interactive of
                  Inl (e, dbg2) \<Rightarrow> (Returned, cleanup dbg2)
                | Inr (res, dbg2) \<Rightarrow>
                    if total res \<noteq> passed res then (OsExit 1, dbg2)
                    else (Returned, cleanup dbg2))))"

fun exit_status :: "exit \<Rightarrow> nat" where
  "exit_status Returned = 0"
| "exit_status (OsExit n) = n"
| "exit_status (Uncaught e) = 1"

section \<open>Example inputs\<close>

text \<open>
  Concrete values on which the theorems below are evaluated: a few variables as
  LLDB shows them, a stopped process with two integer variables and three integers
  in memory, a slice of slices whose one element is the slice of these integers, a
  backend whose executable loads or not and whose user lets the run
  continue or aborts it, and a one-check test case with the source file it is parsed
  from.
\<close>

definition long_t :: sbtype where
  "long_t = SBType ''long'' eTypeClassBuiltin False 8 InvalidType InvalidType"

definition long_value :: "string \<Rightarrow> string \<Rightarrow> sbvalue" where
  "long_value name v = SBValue (Some name) ''long'' long_t (Some v) None []"

definition example_slice :: sbvalue where
  "example_slice =
     SBValue (Some ''s'') ''[]long''
       (SBType ''[]long'' eTypeClassStruct False 24 InvalidType InvalidType) None None
       [SBValue (Some ''data'') ''long *''
          (SBType ''long *'' eTypeClassPointer False 8 long_t InvalidType)
          (Some ''0x0000000000001000'') None [],
        long_value ''len'' ''3'', long_value ''cap'' ''4'']"

definition unreadable_slice :: sbvalue where
  "unreadable_slice =
     SBValue (Some ''u'') ''[]long''
       (SBType ''[]long'' eTypeClassStruct False 24 InvalidType InvalidType) None None []"

definition empty_string :: sbvalue where
  "empty_string =
     SBValue (Some ''e'') ''string''
       (SBType ''string'' eTypeClassStruct False 16 InvalidType InvalidType) None None
       [SBValue (Some ''data'') ''char *''
          (SBType ''char *'' eTypeClassPointer False 8 InvalidType InvalidType)
          (Some ''0x0000000000002000'') None [],
        long_value ''len'' ''0'']"

definition example_inferior :: inferior where
  "example_inferior =
     \<lparr>GetFunctionName = Some ''main.main'',
      GetVariables = [(''a'', long_value ''a'' ''5''), (''b'', long_value ''b'' ''6'')],
      CreateValueFromAddress =
        (\<lambda>addr t. if addr = 4096 then long_value ''element_0'' ''10''
                  else if addr = 4104 then long_value ''element_1'' ''20''
                  else if addr = 4112 then long_value ''element_2'' ''30''
                  else InvalidValue),
      ReadCStringFromMemory = (\<lambda>addr n. [])\<rparr>"

definition nested_slice :: sbvalue where
  "nested_slice =
     SBValue (Some ''n'') ''[][]long''
       (SBType ''[][]long'' eTypeClassStruct False 24 InvalidType InvalidType) None None
       [SBValue (Some ''data'') ''[]long *''
          (SBType ''[]long *'' eTypeClassPointer False 8
             (SBType ''[]long'' eTypeClassStruct False 24 InvalidType InvalidType) InvalidType)
          (Some ''0x0000000000002000'') None [],
        long_value ''len'' ''1'', long_value ''cap'' ''1'']"

definition nested_inferior :: inferior where
  "nested_inferior =
     example_inferior
       \<lparr>CreateValueFromAddress :=
          (\<lambda>addr t. if addr = 8192 then example_slice
                    else CreateValueFromAddress example_inferior addr t)\<rparr>"

definition example_backend :: "bool \<Rightarrow> bool \<Rightarrow> backend" where
  "example_backend loads user_continues =
     \<lparr>CreateTarget = (\<lambda>path. loads),
      BreakpointCreateByLocation = (\<lambda>file_spec line. True),
      LaunchSimple = (\<lambda>t. \<lparr>process_valid = True, GetState = eStateStopped\<rparr>),
      Continue = (\<lambda>t. eStateStopped),
      stopped_at = (\<lambda>t. example_inferior),
      console = (\<lambda>t. (user_continues, eStateStopped)),
      recursion_depth = 900\<rparr>"


definition example_source :: "string \<Rightarrow> string \<Rightarrow> string \<Rightarrow> string list option" where
  "example_source var expected path =
     Some [''// Expected:'', ''//   '' @ var @ '': '' @ expected, ''x := 1'']"



section \<open>Properties of the annotation parser\<close>








section \<open>Properties of the check executor and the orchestrator\<close>







text \<open>A run with no test cases returns the empty summary.\<close>

lemma execute_tests_no_cases:
  "execute_tests w dbg [] interactive
   = Inr (\<lparr>total = 0, passed = 0, failed = 0, case_results = []\<rparr>, dbg)"
  by (simp add: execute_tests_def)



section \<open>Properties of the value formatter\<close>

lemma collect_upt:
  assumes "\<forall>i<n. f i = Inr (g i)"
  shows "collect f [0..<n] = Inr (map g [0..<n])"
proof -
  have "\<forall>x \<in> set xs. f x = Inr (g x) \<Longrightarrow> collect f xs = Inr (map g xs)" for xs
    by (induction xs) simp_all
  from this[of "[0..<n]"] assms show ?thesis by simp
qed

lemma join_values_Some: "join_values sep (map Some es) = Inr (join sep es)"
proof -
  have "those (map Some es) = Some es"
    by (induction es) simp_all
  then show ?thesis by (simp add: join_values_def)
qed

text \<open>
  The element type name that \<^verbatim>\<open>format_slice\<close> extracts: for a slice type named
  \<^verbatim>\<open>[]T\<close>, where \<open>T\<close> holds no further \<^verbatim>\<open>[]\<close>, the text after the last \<^verbatim>\<open>[]\<close>
  is \<open>T\<close>.
\<close>

lemma split_on_no_brackets:
  "\<forall>i. take 2 (drop i s) \<noteq> ''[]'' \<Longrightarrow> split_on ''[]'' acc s = [rev acc @ s]"
proof (induction s arbitrary: acc)
  case Nil
  then show ?case by simp
next
  case (Cons c cs)
  from Cons.prems have here: "take 2 (c # cs) \<noteq> ''[]''"
    by (metis drop0)
  have rest: "\<forall>i. take 2 (drop i cs) \<noteq> ''[]''"
  proof
    fix i
    from Cons.prems have "take 2 (drop (Suc i) (c # cs)) \<noteq> ''[]''" by blast
    then show "take 2 (drop i cs) \<noteq> ''[]''" by simp
  qed
  from here have "split_on ''[]'' acc (c # cs) = split_on ''[]'' (c # acc) cs"
    by auto
  also have "\<dots> = [rev (c # acc) @ cs]" by (rule Cons.IH[OF rest])
  finally show ?case by simp
qed

lemma split_str_slice_name:
  assumes "\<forall>i. take 2 (drop i elem) \<noteq> ''[]''"
  shows "last (split_str ''[]'' (''[]'' @ elem)) = elem"
proof -
  have "split_str ''[]'' (''[]'' @ elem) = [[], elem]"
    using split_on_no_brackets[OF assms, of "[]"] by (simp add: split_str_def)
  then show ?thesis by simp
qed

text \<open>
  What \<^verbatim>\<open>format_slice\<close> renders. For a slice whose \<open>len\<close> member reads as the
  integer \<open>n\<close> and whose \<open>data\<close> member reads as the address \<open>base\<close>, it formats,
  for each \<open>i\<close> from 0 to \<open>n - 1\<close>, the value of the pointee type at address
  \<open>base + i * element_size\<close>; when these format to the strings \<open>e 0\<close>, ...,
  \<open>e (n - 1)\<close> the result is \<^verbatim>\<open>[]T[e0, e1, ...]\<close>, where \<open>T\<close> is the text after the
  last \<^verbatim>\<open>[]\<close> of the slice's type name, passed through the alias table; for a slice
  type named \<^verbatim>\<open>[]\<close> followed by a name \<open>elem\<close> without \<^verbatim>\<open>[]\<close>, that is the alias of
  \<open>elem\<close>. The example after it is the one of the specification: three integers 10,
  20, 30 of element type \<^verbatim>\<open>long\<close> render as \<^verbatim>\<open>[]int[10, 20, 30]\<close>.
\<close>

lemma format_slice_renders:
  assumes len: "py_int (GetValue (GetChildMemberWithName var ''len'')) = Inr n"
    and ptr: "py_int16 (GetValue (GetChildMemberWithName var ''data'')) = Inr base"
    and elems: "\<forall>i<nat n.
        format_value m d
          (CreateValueFromAddress m
             (base + int i *
                int (GetByteSize (GetPointeeType (GetType (GetChildMemberWithName var ''data'')))))
             (GetPointeeType (GetType (GetChildMemberWithName var ''data''))))
        = Inr (Some (e i))"
  shows "format_slice m (Suc d) var =
           Inr (Some (''[]'' @
                      type_mapping_get (last (split_str ''[]'' (Type_GetName (GetType var)))) @
                      ''['' @ join '', '' (map e [0..<nat n]) @ '']'')) \<and>
         (\<forall>elem. Type_GetName (GetType var) = ''[]'' @ elem \<and>
                 (\<forall>i. take 2 (drop i elem) \<noteq> ''[]'') \<longrightarrow>
            format_slice m (Suc d) var =
              Inr (Some (''[]'' @ type_mapping_get elem @
                         ''['' @ join '', '' (map e [0..<nat n]) @ '']'')))"
proof -
  let ?elt = "GetPointeeType (GetType (GetChildMemberWithName var ''data''))"
  let ?f = "\<lambda>i. format_value m d
              (CreateValueFromAddress m (base + int i * int (GetByteSize ?elt)) ?elt)"
  have "collect ?f [0..<nat n] = Inr (map (\<lambda>i. Some (e i)) [0..<nat n])"
    using elems by (intro collect_upt) simp
  moreover have "join_values '', '' (map (\<lambda>i. Some (e i)) [0..<nat n])
      = Inr (join '', '' (map e [0..<nat n]))"
    using join_values_Some[of "'', ''" "map e [0..<nat n]"] by (simp add: comp_def)
  ultimately have general: "format_slice m (Suc d) var =
           Inr (Some (''[]'' @
                      type_mapping_get (last (split_str ''[]'' (Type_GetName (GetType var)))) @
                      ''['' @ join '', '' (map e [0..<nat n]) @ '']''))"
    using len ptr by (simp add: Let_def)
  show ?thesis
  proof (intro conjI allI impI)
    show "format_slice m (Suc d) var =
           Inr (Some (''[]'' @
                      type_mapping_get (last (split_str ''[]'' (Type_GetName (GetType var)))) @
                      ''['' @ join '', '' (map e [0..<nat n]) @ '']''))"
      by (rule general)
  next
    fix elem
    assume a: "Type_GetName (GetType var) = ''[]'' @ elem \<and>
               (\<forall>i. take 2 (drop i elem) \<noteq> ''[]'')"
    then have "last (split_str ''[]'' (Type_GetName (GetType var))) = elem"
      using split_str_slice_name[of elem] by simp
    with general show "format_slice m (Suc d) var =
              Inr (Some (''[]'' @ type_mapping_get elem @
                         ''['' @ join '', '' (map e [0..<nat n]) @ '']''))"
      by simp
  qed
qed

lemma format_slice_renders_example:
  "format_slice example_inferior (Suc 1) example_slice = Inr (Some ''[]int[10, 20, 30]'')"
proof -
  let ?e = "\<lambda>i::nat. if i = 0 then ''10'' else if i = 1 then ''20'' else ''30''"
  let ?elt = "GetPointeeType (GetType (GetChildMemberWithName example_slice ''data''))"
  let ?at = "\<lambda>i::nat. format_value example_inferior 1
          (CreateValueFromAddress example_inferior (4096 + int i * int (GetByteSize ?elt)) ?elt)"
  have len: "py_int (GetValue (GetChildMemberWithName example_slice ''len'')) = Inr 3"
    by code_simp
  have ptr: "py_int16 (GetValue (GetChildMemberWithName example_slice ''data'')) = Inr 4096"
    by code_simp
  have e0: "?at 0 = Inr (Some ''10'')" by code_simp
  have e1: "?at 1 = Inr (Some ''20'')" by code_simp
  have e2: "?at 2 = Inr (Some ''30'')" by code_simp
  have elems: "\<forall>i<nat 3. ?at i = Inr (Some (?e i))"
  proof (intro allI impI)
    fix i :: nat
    assume "i < nat 3"
    then consider "i = 0" | "i = 1" | "i = 2" by force
    then show "?at i = Inr (Some (?e i))"
    proof cases
      case 1 then show ?thesis using e0 by simp
    next
      case 2 then show ?thesis using e1 by simp
    next
      case 3 then show ?thesis using e2 by simp
    qed
  qed
  have shown: "''[]'' @
        type_mapping_get (last (split_str ''[]'' (Type_GetName (GetType example_slice)))) @
        ''['' @ join '', '' (map ?e [0..<nat 3]) @ '']'' = ''[]int[10, 20, 30]''"
    by code_simp
  from format_slice_renders[of example_slice 3 4096 example_inferior 1 ?e, OF len ptr elems]
  have "format_slice example_inferior (Suc 1) example_slice =
        Inr (Some (''[]'' @
          type_mapping_get (last (split_str ''[]'' (Type_GetName (GetType example_slice)))) @
          ''['' @ join '', '' (map ?e [0..<nat 3]) @ '']''))"
    by (rule conjunct1)
  then show ?thesis unfolding shown .
qed

text \<open>
  Claim C8 does not hold of the code. The text after the last \<^verbatim>\<open>[]\<close> of the slice's
  type name is not the element type name when the elements are slices themselves:
  for a slice of type \<^verbatim>\<open>[][]long\<close> the element type is named \<^verbatim>\<open>[]long\<close>, which the
  alias table leaves as it is, so the claim's rendering starts with \<^verbatim>\<open>[][]long\<close>;
  \<^verbatim>\<open>format_slice\<close> takes \<^verbatim>\<open>long\<close>, aliased to \<^verbatim>\<open>int\<close>, and renders the slice of slices
  with the prefix \<^verbatim>\<open>[]int\<close> of a slice of integers. (\<^verbatim>\<open>format_array\<close> asks the type
  for its element type's name instead.)
\<close>

theorem format_slice_nested_element_type:
  "format_value nested_inferior 5 nested_slice = Inr (Some ''[]int[[]int[10, 20, 30]]'') \<and>
   Type_GetName (GetPointeeType (GetType (GetChildMemberWithName nested_slice ''data'')))
     = ''[]long'' \<and>
   type_mapping_get ''[]long'' = ''[]long''"
  by code_simp

text \<open>
  No formatter returns \<^verbatim>\<open>None\<close>: every \<^verbatim>\<open>return\<close> of the five formatters gives a
  string.
\<close>

lemma format_value_Some: "format_value m d var \<noteq> Inr None"
proof (cases d)
  case 0
  then show ?thesis by simp
next
  case (Suc d')
  have string: "format_string m d' var \<noteq> Inr None"
    by (cases d') (auto simp: Let_def split: option.splits sum.splits)
  have complx: "format_complex d' var \<noteq> Inr None"
    by (cases d') (auto simp: Let_def)
  have slice: "format_slice m d' var \<noteq> Inr None"
    by (cases d') (auto simp: Let_def split: sum.splits)
  have array: "format_array m d' var \<noteq> Inr None"
    by (cases d') (auto simp: Let_def split: sum.splits)
  have carray: "format_custom_array m d' var \<noteq> Inr None"
    by (cases d') (auto simp: Let_def split: sum.splits)
  have struct: "format_struct m d' var True \<noteq> Inr None"
    by (cases d') (auto simp: Let_def split: sum.splits)
  show ?thesis
    unfolding Suc using string complx slice array carray struct
    by (auto simp: Let_def split: option.splits)
qed




text \<open>
  Claim C10. For a string value with no summary whose \<open>len\<close> member reads as 0,
  \<^verbatim>\<open>format_string\<close> returns the string \<^verbatim>\<open>None\<close>, not the empty string: memory is
  read only when the data pointer is a non-empty string and the length is not 0,
  so the same holds when the data pointer is missing or empty.
\<close>

theorem format_string_zero_length:
  assumes "GetSummary var = None"
    and "py_int (GetValue (GetChildMemberWithName var ''len'')) = Inr n"
    and "n = 0 \<or> \<not> truthy (GetValue (GetChildMemberWithName var ''data''))"
  shows "format_string m (Suc d) var = Inr (Some ''None'')"
  using assms by (auto simp: Let_def)

theorem format_string_zero_length_witness:
  "format_string example_inferior (Suc 0) empty_string = Inr (Some ''None'')"
proof -
  have s: "GetSummary empty_string = None" by code_simp
  have l: "py_int (GetValue (GetChildMemberWithName empty_string ''len'')) = Inr 0"
    by code_simp
  have z: "(0::int) = 0 \<or> \<not> truthy (GetValue (GetChildMemberWithName empty_string ''data''))"
    by simp
  from format_string_zero_length[OF s l z] show ?thesis .
qed

section \<open>Properties of the checks, the loop body and its breakpoint\<close>

text \<open>
  The branch of \<^verbatim>\<open>execute_single_variable_test\<close> that records status \<^verbatim>\<open>error\<close> is
  never taken, because \<^verbatim>\<open>get_variable_value\<close> never returns \<^verbatim>\<open>None\<close>: a check that
  returns an outcome has status \<^verbatim>\<open>pass\<close> or \<^verbatim>\<open>fail\<close>.
\<close>

lemma execute_single_variable_test_never_error:
  assumes "execute_single_variable_test m d t = Inr r"
  shows "status r = ''pass'' \<or> status r = ''fail''"
proof (cases "get_variable_value m d (variable t)")
  case (Inl e)
  with assms show ?thesis by (simp add: execute_single_variable_test_def)
next
  case (Inr v)
  have "get_variable_value m d (variable t) \<noteq> Inr None"
    by (simp add: get_variable_value_def Let_def format_value_Some)
  with Inr obtain fetched where "v = Some fetched" by (cases v) auto
  with Inr assms show ?thesis
    by (auto simp: execute_single_variable_test_def Let_def split: if_splits)
qed

text \<open>
  Claim C2 does not hold of the code. A check on a variable that the frame does not
  resolve gets status \<^verbatim>\<open>fail\<close> with the actual value \<^verbatim>\<open>None\<close> as a string and no
  message, where the claim promises status \<^verbatim>\<open>error\<close> with a diagnostic message.
\<close>

theorem execute_single_variable_test_unresolved:
  "execute_single_variable_test example_inferior 900
     \<lparr>source_file = ''t.go'', line_number = 2, variable = ''nosuch'', expected_value = ''7''\<rparr>
   = Inr \<lparr>test = \<lparr>source_file = ''t.go'', line_number = 2, variable = ''nosuch'',
                    expected_value = ''7''\<rparr>,
           status = ''fail'', actual = ActualStr ''None'', message = None,
           missing = None, extra = None\<rparr>"
  by code_simp

text \<open>
  The same check passes when the expected text is \<^verbatim>\<open>None\<close>, and a value that cannot
  be formatted (a slice whose \<open>len\<close> cannot be read) raises: the exception leaves
  the case and the loop, and \<^verbatim>\<open>run_tests\<close> logs it and returns.
\<close>

lemma unresolved_variable_can_pass:
  "execute_single_variable_test example_inferior 900
     \<lparr>source_file = ''t.go'', line_number = 2, variable = ''nosuch'',
       expected_value = ''None''\<rparr>
   = Inr \<lparr>test = \<lparr>source_file = ''t.go'', line_number = 2, variable = ''nosuch'',
                    expected_value = ''None''\<rparr>,
           status = ''pass'', actual = ActualStr ''None'', message = None,
           missing = None, extra = None\<rparr>"
  by code_simp

lemma unreadable_value_aborts_run:
  "run_tests
     (example_backend True True
        \<lparr>stopped_at := (\<lambda>t. example_inferior\<lparr>GetVariables := [(''u'', unreadable_slice)]\<rparr>)\<rparr>)
     (example_source ''u'' ''[]int[]'') ''exe'' [''t.go''] False
   = (Returned,
      \<lparr>target = True,
       process = Some \<lparr>process_valid = True, GetState = eStateStopped\<rparr>,
       breakpoints = [1], next_breakpoint = 2, clock = 1, killed = True,
       destroyed = True\<rparr>)"
  by code_simp



lemma restore_process_breakpoints: "breakpoints (restore_process w dbg) = breakpoints dbg"
  by (simp add: restore_process_def split: option.splits)






section \<open>Properties of the top-level run\<close>

text \<open>
  When nothing raises, the exit status is 0 if every check passed and 1 otherwise.
  When setup or the execution of a case raises, the handler logs the exception and
  the exit status is 0.
\<close>

lemma run_tests_exit_status:
  assumes "parse_expected_values fs source_files = Inr test_cases"
    and "LLDBDebugger_setup w executable_path LLDBDebugger = Inr dbg1"
    and "execute_tests w dbg1 test_cases interactive = Inr (res, dbg2)"
  shows "exit_status (fst (run_tests w fs executable_path source_files interactive))
         = (if total res = passed res then 0 else 1)"
  using assms by (simp add: run_tests_def Let_def)

lemma run_tests_caught_exception_exit_status:
  assumes "parse_expected_values fs source_files = Inr test_cases"
    and "LLDBDebugger_setup w executable_path LLDBDebugger = Inl (e, dbg1) \<or>
         (\<exists>dbg1 dbg2. LLDBDebugger_setup w executable_path LLDBDebugger = Inr dbg1 \<and>
            execute_tests w dbg1 test_cases interactive = Inl (e, dbg2))"
  shows "exit_status (fst (run_tests w fs executable_path source_files interactive)) = 0"
  using assms by (auto simp: run_tests_def Let_def)

text \<open>
  Claim C1 does not hold of the code. When the target cannot be created, \<^verbatim>\<open>setup\<close>
  raises, \<^verbatim>\<open>run_tests\<close> logs the error and returns, and the exit status is 0, where
  the claim promises a non-zero status.
\<close>

theorem run_tests_setup_error_exit_status:
  "run_tests (example_backend False True) (example_source ''a'' ''5'') ''exe'' [''t.go''] False
   = (Returned,
      \<lparr>target = False, process = None, breakpoints = [], next_breakpoint = 1, clock = 0,
       killed = False, destroyed = True\<rparr>) \<and>
   exit_status
     (fst (run_tests (example_backend False True) (example_source ''a'' ''5'') ''exe''
             [''t.go''] False)) = 0"
  by code_simp

text \<open>
  A run in which some check failed ends in \<^verbatim>\<open>os._exit(1)\<close>, with the debugger in
  the state the orchestrator left it in.
\<close>

lemma run_tests_failed_check_no_cleanup:
  assumes "parse_expected_values fs source_files = Inr test_cases"
    and "LLDBDebugger_setup w executable_path LLDBDebugger = Inr dbg1"
    and "execute_tests w dbg1 test_cases interactive = Inr (res, dbg2)"
    and "total res \<noteq> passed res"
  shows "run_tests w fs executable_path source_files interactive = (OsExit 1, dbg2)"
  using assms by (simp add: run_tests_def Let_def)

text \<open>
  Claim C3 does not hold of the code. A run with one failing check ends with exit
  status 1, the process not killed and the debugger not destroyed: \<^verbatim>\<open>os._exit\<close>
  does not run the \<^verbatim>\<open>finally\<close> clause that calls \<^verbatim>\<open>cleanup\<close>.
\<close>

theorem run_tests_failed_check_skips_cleanup:
  "run_tests (example_backend True True) (example_source ''a'' ''6'') ''exe'' [''t.go''] False
   = (OsExit 1,
      \<lparr>target = True,
       process = Some \<lparr>process_valid = True, GetState = eStateStopped\<rparr>,
       breakpoints = [], next_breakpoint = 2, clock = 1, killed = False,
       destroyed = False\<rparr>)"
  by code_simp

text \<open>The same run with a passing check does clean up.\<close>

lemma run_tests_passing_run_cleans_up:
  "run_tests (example_backend True True) (example_source ''a'' ''5'') ''exe'' [''t.go''] False
   = (Returned,
      \<lparr>target = True,
       process = Some \<lparr>process_valid = True, GetState = eStateStopped\<rparr>,
       breakpoints = [], next_breakpoint = 2, clock = 1, killed = True,
       destroyed = True\<rparr>)"
  by code_simp

end
